theory Spec2Isabelle
  imports Main
begin

section \<open>The template parameter \<open>Future\<close>\<close>

text \<open>
  \<open>shared_future_adaptor<Future>\<close> is a class template: the wrapped future type is a
  parameter, known to the adaptor only through the member functions it calls on it
  (\<open>is_valid()\<close>, \<open>is_ready()\<close>, \<open>wait()\<close>, \<open>get()\<close>) and through its move constructor
  (the \<open>static_assert\<close> demands a move-only type). The model takes these five operations
  as a record of functions over an arbitrary type \<open>'f\<close> of future values:

  \<^item> \<open>fut_is_valid\<close> is called through a \<open>Future&\<close>, so it returns its answer and the
    future as the call leaves it;
  \<^item> \<open>fut_is_ready\<close> is a query: it is called through a \<open>const Future&\<close>;
  \<^item> \<open>fut_wait\<close> is called through a \<open>Future&\<close>, so it returns the future as the call
    leaves it;
  \<^item> \<open>fut_get\<close> yields either the exception it throws (\<open>Inl\<close>) or the value it returns
    (\<open>Inr\<close>), together with the future as the call leaves it;
  \<^item> \<open>fut_move\<close> is the move constructor: the newly constructed future and what is left
    of the source.
\<close>

record ('f, 'a, 'e) future_ops =
  fut_is_valid :: "'f \<Rightarrow> bool \<times> 'f"
  fut_is_ready :: "'f \<Rightarrow> bool"
  fut_wait :: "'f \<Rightarrow> 'f"
  fut_get :: "'f \<Rightarrow> ('e + 'a) \<times> 'f"
  fut_move :: "'f \<Rightarrow> 'f \<times> 'f"

text \<open>Every call the adaptor makes on an underlying future is logged, in order.\<close>

datatype call = Call_is_valid | Call_move | Call_is_ready | Call_wait | Call_get

section \<open>The shared state\<close>

text \<open>
  \<open>using state_type = std::variant<Future,result_type>\<close>: the alternative holding the
  wrapped future is \<open>Pending\<close>, the one holding the result is \<open>Ready\<close>.
\<close>

datatype ('f, 'a) state_type = Pending 'f | Ready 'a

text \<open>
  Modelled from the spec: \<open>variant_type\<close>, the type that \<open>get_visitor\<close> (line 101) and
  the \<open>std::make_shared\<close> of line 45 name, is declared nowhere in the source. The spec
  has one shared State, a tagged union of \<open>Pending(UnderlyingFuture)\<close> and
  \<open>Ready(Result)\<close>, which is what \<open>state_type\<close> and the pointee of \<open>variant_ptr_\<close> are;
  \<open>variant_type\<close> is taken to be that type.
\<close>

type_synonym ('f, 'a) variant_type = "('f, 'a) state_type"

text \<open>
  The variants live on the heap, each created by \<open>std::make_shared\<close>. The heap is the
  list of the variants allocated so far, and the address of a variant is its index. A
  \<open>std::shared_ptr\<close> keeps its variant alive, so no variant is ever removed.
\<close>

record ('f, 'a) world =
  cells :: "('f, 'a) variant_type list"
  calls :: "call list"

definition note_call :: "call \<Rightarrow> ('f, 'a) world \<Rightarrow> ('f, 'a) world" where
  "note_call c w = w\<lparr>calls := calls w @ [c]\<rparr>"

text \<open>
  The adaptor has one data member, \<open>std::shared_ptr<state_type> variant_ptr_\<close>; \<open>None\<close>
  is the empty pointer. (The field is \<open>variant_ptr\<close> here: a name cannot end with an
  underscore.)
\<close>

record shared_future_adaptor =
  variant_ptr :: "nat option"

text \<open>
  What a call can come to, other than a result: undefined behaviour (dereferencing an
  empty or a dangling pointer); the exception of the underlying future, passed on (the
  source has no \<open>throw\<close> or \<open>catch\<close> of its own); or nothing at all, where the
  expression as written is ill-formed and so calls nothing.
\<close>

datatype 'e error = Undefined_behaviour | Ill_formed | Thrown 'e

section \<open>Lines 41 to 47: the constructor and the block after it\<close>

text \<open>
  \<^verbatim>\<open>
  shared_future_adaptor(Future& unique_future);
  {
    if(unique_future.is_valid())
    {
      variant_ptr_ = std::make_shared<variant_type>(std::move(unique_future));
    }
  }
  \<close>
  The semicolon of line 41 ends the declaration of the constructor: the constructor has
  no body, and the block of lines 42 to 47 belongs to no function. There is therefore
  no definition of the constructor to embed. \<open>constructor_block\<close> embeds the statements
  of the block by themselves, as they would run on an adaptor \<open>this\<close> and a future
  \<open>unique_future\<close>: it returns the adaptor, the future as the block leaves it, and the
  heap.
\<close>

definition constructor_block ::
  "('f, 'a, 'e) future_ops \<Rightarrow> shared_future_adaptor \<Rightarrow> 'f \<Rightarrow> ('f, 'a) world \<Rightarrow>
     shared_future_adaptor \<times> 'f \<times> ('f, 'a) world" where
  "constructor_block ops this unique_future w =
     (case fut_is_valid ops unique_future of
        (answer, queried) \<Rightarrow>
          (let w1 = note_call Call_is_valid w in
           if answer then
             (case fut_move ops queried of
                (moved_in, left_over) \<Rightarrow>
                  (this\<lparr>variant_ptr := Some (length (cells w1))\<rparr>,
                   left_over,
                   note_call Call_move (w1\<lparr>cells := cells w1 @ [Pending moved_in]\<rparr>)))
           else (this, queried, w1)))"

section \<open>Copying and \<open>valid\<close>\<close>

text \<open>The implicit copy constructor copies the \<open>shared_ptr\<close>: the copy has the same pointee.\<close>

definition shared_future_adaptor_copy :: "shared_future_adaptor \<Rightarrow> shared_future_adaptor" where
  "shared_future_adaptor_copy other = \<lparr>variant_ptr = variant_ptr other\<rparr>"

text \<open>\<open>bool valid() const { return static_cast<bool>(variant_ptr_); }\<close>\<close>

definition valid :: "shared_future_adaptor \<Rightarrow> bool" where
  "valid this = (case variant_ptr this of None \<Rightarrow> False | Some p \<Rightarrow> True)"

text \<open>
  \<open>*variant_ptr_\<close>: the address of the pointee. Dereferencing an empty
  \<open>shared_ptr\<close> is undefined behaviour; so is an address outside the heap, which no
  adaptor built by the constructor or by copying has.
\<close>

definition deref :: "shared_future_adaptor \<Rightarrow> ('f, 'a) world \<Rightarrow> 'e error + nat" where
  "deref this w =
     (case variant_ptr this of
        None \<Rightarrow> Inl Undefined_behaviour
      | Some p \<Rightarrow> if p < length (cells w) then Inr p else Inl Undefined_behaviour)"

section \<open>\<open>is_ready\<close>\<close>

text \<open>
  \<^verbatim>\<open>
  struct is_ready_visitor
  {
    bool operator()(const result_type&) const { return true; }
    bool operator()(const Future& underlying_future) const { return underlying_future.is_ready(); }
  };
  bool is_ready() const { return std::visit(is_ready_visitor(), *variant_ptr_); }
  \<close>
\<close>

fun is_ready_visitor ::
  "('f, 'a, 'e) future_ops \<Rightarrow> ('f, 'a) state_type \<Rightarrow> ('f, 'a) world \<Rightarrow> bool \<times> ('f, 'a) world" where
  "is_ready_visitor ops (Ready result) w = (True, w)"
| "is_ready_visitor ops (Pending underlying_future) w =
     (fut_is_ready ops underlying_future, note_call Call_is_ready w)"

definition is_ready ::
  "('f, 'a, 'e) future_ops \<Rightarrow> shared_future_adaptor \<Rightarrow> ('f, 'a) world \<Rightarrow>
     ('e error + bool) \<times> ('f, 'a) world" where
  "is_ready ops this w =
     (case deref this w of
        Inl e \<Rightarrow> (Inl e, w)
      | Inr p \<Rightarrow> (case is_ready_visitor ops (cells w ! p) w of (b, w') \<Rightarrow> (Inr b, w')))"

section \<open>\<open>wait\<close>\<close>

text \<open>
  \<^verbatim>\<open>
  struct wait_visitor
  {
    void operator()(result_type&) const {}
    void operator()(Future& underlying_future) const { underlying_future.wait(); }
  };
  void wait() { std::visit(wait_visitor(), *variant_ptr_); }
  \<close>
  The visitor receives a reference to the alternative inside the variant at address \<open>p\<close>;
  what \<open>wait()\<close> does to the future happens in place.
\<close>

fun wait_visitor ::
  "('f, 'a, 'e) future_ops \<Rightarrow> nat \<Rightarrow> ('f, 'a) state_type \<Rightarrow> ('f, 'a) world \<Rightarrow> ('f, 'a) world" where
  "wait_visitor ops p (Ready result) w = w"
| "wait_visitor ops p (Pending underlying_future) w =
     note_call Call_wait (w\<lparr>cells := (cells w)[p := Pending (fut_wait ops underlying_future)]\<rparr>)"

definition wait ::
  "('f, 'a, 'e) future_ops \<Rightarrow> shared_future_adaptor \<Rightarrow> ('f, 'a) world \<Rightarrow>
     ('e error + unit) \<times> ('f, 'a) world" where
  "wait ops this w =
     (case deref this w of
        Inl e \<Rightarrow> (Inl e, w)
      | Inr p \<Rightarrow> (Inr (), wait_visitor ops p (cells w ! p) w))"

section \<open>\<open>get_visitor\<close> and \<open>get\<close>\<close>

text \<open>
  \<^verbatim>\<open>
  struct get_visitor
  {
    variant_type& self;
    result_type& operator()(result_type& result) const { return result; }
    result_type& operator()(Future& underlying_future) const
    {
      result_type result = underlying_future.get();
      self = std::move(result);
      return std::visit(*this, self);
    }
  };
  \<close>
  The visitor holds a reference \<open>self\<close> to a variant, and \<open>std::visit\<close> applies it to
  an alternative of a variant, the one \<open>visited\<close>. Nothing in the struct makes the two
  the same variant, so the model takes both addresses. On a result the visitor returns a
  reference to that result, which lies in the visited variant: the model returns the
  address of that variant, and \<open>read_result\<close> reads through such a reference. On a
  future it retrieves from that future, in place in the visited variant (line 111),
  assigns the result to \<open>self\<close> (line 114), and visits \<open>self\<close> (line 117).

  When \<open>underlying_future.get()\<close> throws, the exception leaves the visitor: the
  assignment is not reached, and the visited variant still holds the future, as its
  \<open>get()\<close> left it. Moving a result is taken not to throw, so the assignment always
  completes. Assigning through a dangling \<open>self\<close> is undefined behaviour.
\<close>

function get_visitor ::
  "('f, 'a, 'e) future_ops \<Rightarrow> nat \<Rightarrow> nat \<Rightarrow> ('f, 'a) world \<Rightarrow>
     ('e error + nat) \<times> ('f, 'a) world" where
  "get_visitor ops self visited w =
     (if length (cells w) \<le> visited then (Inl Undefined_behaviour, w)
      else
        (case cells w ! visited of
           Ready result \<Rightarrow> (Inr visited, w)
         | Pending underlying_future \<Rightarrow>
             (case fut_get ops underlying_future of
                (Inl e, left) \<Rightarrow>
                  (Inl (Thrown e),
                   note_call Call_get (w\<lparr>cells := (cells w)[visited := Pending left]\<rparr>))
              | (Inr result, left) \<Rightarrow>
                  (if length (cells w) \<le> self
                   then (Inl Undefined_behaviour,
                         note_call Call_get (w\<lparr>cells := (cells w)[visited := Pending left]\<rparr>))
                   else get_visitor ops self self
                          (note_call Call_get
                             (w\<lparr>cells := (cells w)[visited := Pending left, self := Ready result]\<rparr>))))))"
  by pat_completeness auto
termination
  by (relation "measure (\<lambda>(ops, self, visited, w).
        if visited < length (cells w)
        then (case cells w ! visited of Pending f \<Rightarrow> 1 | Ready r \<Rightarrow> 0) else 0)")
     (auto simp: note_call_def)

text \<open>
  \<^verbatim>\<open>
  result_type& get() const
  {
    return std::visit(*variant_ptr_, get_visitor{*this});
  }
  \<close>
  \<open>is_ready\<close> (line 66) and \<open>wait\<close> (line 95) call \<open>std::visit(visitor, *variant_ptr_)\<close>.
  \<open>get\<close> has the two arguments the other way round, and initialises the visitor from
  \<open>*this\<close>, the adaptor, where \<open>get_visitor\<close> has a \<open>variant_type&\<close>. As written the call
  evaluates \<open>*variant_ptr_\<close>, unguarded like the other two, and then has no visitor to
  apply and no variant to apply it to: the expression is ill-formed, and no
  \<open>operator()\<close> of \<open>get_visitor\<close> is called by it.
\<close>

definition get ::
  "('f, 'a, 'e) future_ops \<Rightarrow> shared_future_adaptor \<Rightarrow> ('f, 'a) world \<Rightarrow>
     ('e error + nat) \<times> ('f, 'a) world" where
  "get ops this w =
     (case deref this w of
        Inl e \<Rightarrow> (Inl e, w)
      | Inr p \<Rightarrow> (Inl Ill_formed, w))"

definition read_result :: "('f, 'a) world \<Rightarrow> nat \<Rightarrow> 'a option" where
  "read_result w r =
     (if r < length (cells w)
      then (case cells w ! r of Ready result \<Rightarrow> Some result | Pending f \<Rightarrow> None)
      else None)"

section \<open>The life of a state: sequences of calls\<close>





text \<open>\<open>holds_result\<close> is the shape of a variant: whether it holds the result alternative.\<close>

fun holds_result :: "('f, 'a) state_type \<Rightarrow> bool" where
  "holds_result (Ready result) = True"
| "holds_result (Pending underlying_future) = False"


text \<open>The number of times the underlying consuming retrieval has been invoked.\<close>

definition retrievals :: "('f, 'a) world \<Rightarrow> nat" where
  "retrievals w = length (filter (\<lambda>c. c = Call_get) (calls w))"

section \<open>Threads in the future branch of \<open>get_visitor\<close>\<close>





section \<open>An instance of \<open>Future\<close>\<close>

text \<open>
  A future in the manner of \<open>std::future\<close>, to run the adaptor on: it is valid until it
  is moved from or its result is retrieved; \<open>wait\<close> returns once it is ready; \<open>get\<close> gives
  the stored outcome, a value or an exception.
\<close>

record simple_future =
  sf_valid :: bool
  sf_ready :: bool
  sf_outcome :: "string + int"

definition simple_ops :: "(simple_future, int, string) future_ops" where
  "simple_ops =
     \<lparr>fut_is_valid = (\<lambda>f. (sf_valid f, f)),
      fut_is_ready = sf_ready,
      fut_wait = (\<lambda>f. f\<lparr>sf_ready := True\<rparr>),
      fut_get = (\<lambda>f. (sf_outcome f, f\<lparr>sf_valid := False, sf_ready := True\<rparr>)),
      fut_move = (\<lambda>f. (f, f\<lparr>sf_valid := False\<rparr>))\<rparr>"

definition yields :: "int \<Rightarrow> simple_future" where
  "yields v = \<lparr>sf_valid = True, sf_ready = False, sf_outcome = Inr v\<rparr>"

definition fails :: "string \<Rightarrow> simple_future" where
  "fails e = \<lparr>sf_valid = True, sf_ready = False, sf_outcome = Inl e\<rparr>"

definition invalid_future :: simple_future where
  "invalid_future = \<lparr>sf_valid = False, sf_ready = False, sf_outcome = Inr 0\<rparr>"

definition empty_world :: "(simple_future, int) world" where
  "empty_world = \<lparr>cells = [], calls = []\<rparr>"

definition one_pending :: "(simple_future, int) world" where
  "one_pending = \<lparr>cells = [Pending (yields 42)], calls = []\<rparr>"

definition one_failing :: "(simple_future, int) world" where
  "one_failing = \<lparr>cells = [Pending (fails ''broken promise'')], calls = []\<rparr>"

definition one_ready :: "(simple_future, int) world" where
  "one_ready = \<lparr>cells = [Ready 42], calls = []\<rparr>"

definition handle :: "nat \<Rightarrow> shared_future_adaptor" where
  "handle p = \<lparr>variant_ptr = Some p\<rparr>"

definition empty_handle :: shared_future_adaptor where
  "empty_handle = \<lparr>variant_ptr = None\<rparr>"

section \<open>Properties of the visitors\<close>

declare get_visitor.simps [simp del]

lemma get_visitor_Ready:
  assumes "visited < length (cells w)" and "cells w ! visited = Ready v"
  shows "get_visitor ops self visited w = (Inr visited, w)"
  using assms by (subst get_visitor.simps) simp



lemma get_visitor_Pending_returns:
  assumes "visited < length (cells w)" and "cells w ! visited = Pending f"
    and "fut_get ops f = (Inr v, f')" and "self < length (cells w)"
  shows "get_visitor ops self visited w =
           (Inr self,
            note_call Call_get
              (w\<lparr>cells := (cells w)[visited := Pending f', self := Ready v]\<rparr>))"
proof -
  let ?w' = "note_call Call_get
               (w\<lparr>cells := (cells w)[visited := Pending f', self := Ready v]\<rparr>)"
  have "get_visitor ops self visited w = get_visitor ops self self ?w'"
    using assms by (subst get_visitor.simps) simp
  also have "\<dots> = (Inr self, ?w')"
    using assms(4) by (intro get_visitor_Ready) (simp_all add: note_call_def)
  finally show ?thesis .
qed


text \<open>Dispatched on the variant it holds, the visitor is the intended \<open>get\<close>.\<close>

lemma get_visitor_own_returns:
  assumes "p < length (cells w)" and "cells w ! p = Pending f"
    and "fut_get ops f = (Inr v, f')"
  shows "get_visitor ops p p w =
           (Inr p, w\<lparr>cells := (cells w)[p := Ready v], calls := calls w @ [Call_get]\<rparr>)"
  using get_visitor_Pending_returns[OF assms assms(1)] by (simp add: note_call_def)


lemma deref_Some:
  assumes "variant_ptr this = Some p" and "p < length (cells w)"
  shows "deref this w = Inr p"
  using assms by (simp add: deref_def)

lemma deref_None:
  assumes "variant_ptr this = None"
  shows "deref this w = Inl Undefined_behaviour"
  using assms by (simp add: deref_def)



lemma is_ready_cells: "cells (snd (is_ready ops this w)) = cells w"
proof (cases "deref this w :: 'c error + nat")
  case (Inl e)
  then show ?thesis by (simp add: is_ready_def)
next
  case (Inr p)
  then show ?thesis
    by (cases "cells w ! p") (simp_all add: is_ready_def note_call_def)
qed





section \<open>Properties of sequences of steps\<close>










lemma get_valid_ill_formed:
  assumes "variant_ptr this = Some p" and "p < length (cells w)"
  shows "get ops this w = (Inl Ill_formed, w)"
  using assms by (simp add: get_def deref_def)

lemma read_result_Ready:
  assumes "p < length (cells w)" and "cells w ! p = Ready v"
  shows "read_result w p = Some v"
  using assms by (simp add: read_result_def)

lemma copies_variant_ptr:
  "variant_ptr ((shared_future_adaptor_copy ^^ n) a) = variant_ptr a"
  by (induction n) (simp_all add: shared_future_adaptor_copy_def)

section \<open>Properties of the threads\<close>





text \<open>The definitions to unfold when a call is evaluated on the instance.\<close>

lemmas simple_defs = simple_ops_def yields_def fails_def invalid_future_def empty_world_def
  one_pending_def one_failing_def one_ready_def handle_def empty_handle_def


section \<open>\<open>get\<close> as written, and the visitor it is meant to dispatch\<close>

text \<open>
  Claim C1 says that the first \<open>get\<close> on an adaptor whose state is \<open>Pending\<close> invokes
  the consuming retrieval of the underlying future exactly once, moves the value into
  the state and returns a reference to it, and that every later \<open>get\<close> returns the
  cached value without another retrieval. \<open>get\<close> as line 124 has it does none of this:
  on an adaptor whose state is \<open>Pending f\<close> it applies no visitor, so nothing is
  retrieved, stored or returned, and the heap and the log of calls are as before. What
  the claim describes is \<open>get_visitor\<close> held with the adaptor's variant as \<open>self\<close> and
  applied to that variant, the way \<open>is_ready\<close> and \<open>wait\<close> apply their visitors: when
  the retrieval of \<open>f\<close> returns \<open>v\<close>, that logs exactly one call of the underlying
  \<open>get\<close>, leaves \<open>Ready v\<close> in the state, and returns the reference through which \<open>v\<close>
  is read; applied again, it returns the same reference and changes nothing.
\<close>

theorem get_as_written_retrieves_nothing:
  assumes "variant_ptr this = Some p" and "p < length (cells w)"
    and "cells w ! p = Pending f" and "fut_get ops f = (Inr v, f')"
  shows "get ops this w = (Inl Ill_formed, w) \<and>
         get_visitor ops p p w =
           (Inr p, w\<lparr>cells := (cells w)[p := Ready v], calls := calls w @ [Call_get]\<rparr>) \<and>
         read_result (snd (get_visitor ops p p w)) p = Some v \<and>
         get_visitor ops p p (snd (get_visitor ops p p w)) =
           (Inr p, snd (get_visitor ops p p w))"
proof -
  let ?w1 = "w\<lparr>cells := (cells w)[p := Ready v], calls := calls w @ [Call_get]\<rparr>"
  have a: "get ops this w = (Inl Ill_formed, w)"
    using assms(1,2) by (rule get_valid_ill_formed)
  have g: "get_visitor ops p p w = (Inr p, ?w1)"
    using assms(2,3,4) by (rule get_visitor_own_returns)
  then have s: "snd (get_visitor ops p p w) = ?w1" by simp
  have k: "p < length (cells ?w1)" "cells ?w1 ! p = Ready v" using assms(2) by simp_all
  have r: "read_result ?w1 p = Some v" using k by (rule read_result_Ready)
  have c: "get_visitor ops p p ?w1 = (Inr p, ?w1)" using k by (rule get_visitor_Ready)
  from a g r c show ?thesis unfolding s by (intro conjI)
qed

theorem get_as_written_retrieves_nothing_witness:
  "get simple_ops (handle 0) one_pending = (Inl Ill_formed, one_pending) \<and>
   get_visitor simple_ops 0 0 one_pending =
     (Inr 0, \<lparr>cells = [Ready 42], calls = [Call_get]\<rparr>)"
proof -
  let ?w1 = "\<lparr>cells = [Ready 42], calls = [Call_get]\<rparr> :: (simple_future, int) world"
  have a: "variant_ptr (handle 0) = Some 0" by (simp add: handle_def)
  have b: "0 < length (cells one_pending)" by (simp add: one_pending_def)
  have c: "cells one_pending ! 0 = Pending (yields 42)" by (simp add: one_pending_def)
  have d: "fut_get simple_ops (yields 42) =
             (Inr 42, (yields 42)\<lparr>sf_valid := False, sf_ready := True\<rparr>)"
    by (simp add: simple_ops_def yields_def)
  have w1: "one_pending\<lparr>cells := (cells one_pending)[0 := Ready 42],
              calls := calls one_pending @ [Call_get]\<rparr> = ?w1"
    by (simp add: one_pending_def)
  note t = get_as_written_retrieves_nothing[OF a b c d, unfolded w1]
  from t have g: "get simple_ops (handle 0) one_pending = (Inl Ill_formed, one_pending)"
    by (rule conjunct1)
  from t have v: "get_visitor simple_ops 0 0 one_pending = (Inr 0, ?w1)"
    by blast
  from g v show ?thesis by (intro conjI)
qed

section \<open>The state changes once, from \<open>Pending\<close> to \<open>Ready\<close>\<close>



section \<open>An adaptor without a state\<close>

text \<open>
  Claim C3 says that \<open>is_ready\<close>, \<open>wait\<close> and \<open>get\<close> on an adaptor that refers to no
  state fail by signalling an \<open>InvalidHandle\<close> error to the caller. The member functions
  evaluate \<open>*variant_ptr_\<close> without testing the pointer, and the class throws nothing:
  on the empty adaptor each of the three calls ends in the undefined dereference, not in
  an exception passed to the caller.
\<close>

theorem invalid_handle_is_not_signalled:
  "\<not> valid empty_handle \<and>
   is_ready simple_ops empty_handle one_pending = (Inl Undefined_behaviour, one_pending) \<and>
   wait simple_ops empty_handle one_pending = (Inl Undefined_behaviour, one_pending) \<and>
   get simple_ops empty_handle one_pending = (Inl Undefined_behaviour, one_pending) \<and>
   fst (is_ready simple_ops empty_handle one_pending) \<noteq> Inl (Thrown ''InvalidHandle'') \<and>
   fst (wait simple_ops empty_handle one_pending) \<noteq> Inl (Thrown ''InvalidHandle'') \<and>
   fst (get simple_ops empty_handle one_pending) \<noteq> Inl (Thrown ''InvalidHandle'')"
  by (simp add: valid_def is_ready_def wait_def get_def deref_def empty_handle_def)

text \<open>
  Claim C3, as the code has it. On an adaptor for which \<open>valid\<close> is false, \<open>is_ready\<close>,
  \<open>wait\<close> and \<open>get\<close> dereference the empty pointer unchecked: the behaviour is undefined,
  no error is signalled, and neither the heap nor any underlying future is touched
  before that.
\<close>

theorem invalid_adaptor_unchecked:
  assumes "\<not> valid this"
  shows "is_ready ops this w = (Inl Undefined_behaviour, w) \<and>
         wait ops this w = (Inl Undefined_behaviour, w) \<and>
         get ops this w = (Inl Undefined_behaviour, w)"
proof -
  from assms have n: "variant_ptr this = None"
    by (cases "variant_ptr this") (simp_all add: valid_def)
  show ?thesis by (simp add: is_ready_def wait_def get_def deref_None[OF n])
qed

theorem invalid_adaptor_unchecked_witness:
  "\<not> valid empty_handle \<and>
   is_ready simple_ops empty_handle one_ready = (Inl Undefined_behaviour, one_ready) \<and>
   wait simple_ops empty_handle one_ready = (Inl Undefined_behaviour, one_ready) \<and>
   get simple_ops empty_handle one_ready = (Inl Undefined_behaviour, one_ready)"
proof -
  have v: "\<not> valid empty_handle" by (simp add: valid_def empty_handle_def)
  from v invalid_adaptor_unchecked[OF v, of simple_ops one_ready] show ?thesis
    by (intro conjI) simp_all
qed

section \<open>Lines 41 to 47: what the block does\<close>

text \<open>
  Claim C4 says that construction from a valid future \<open>F\<close> moves \<open>F\<close> into a newly
  allocated state \<open>Pending\<close> to which the new adaptor refers, so that \<open>valid\<close> is true,
  and that construction from a future that is not valid yields an adaptor with no
  state, of which \<open>valid\<close> is false, without an exception. The constructor declared at
  line 41 has no body; what the claim describes is the block that follows it. Run on a
  new adaptor (its pointer empty), the block does this: when the validity query answers
  true, the future is moved into a state \<open>Pending\<close> at an address no earlier state has
  (the states already on the heap stay as they are), the adaptor refers to it, and
  \<open>valid\<close> is true; when it answers false, the adaptor is left with the empty pointer,
  nothing is allocated, and \<open>valid\<close> is false.
\<close>

theorem constructor_block_on_new_adaptor:
  assumes "variant_ptr this = None"
  shows "(fst (fut_is_valid ops F) \<longrightarrow>
            constructor_block ops this F w =
              (this\<lparr>variant_ptr := Some (length (cells w))\<rparr>,
               snd (fut_move ops (snd (fut_is_valid ops F))),
               w\<lparr>cells := cells w @ [Pending (fst (fut_move ops (snd (fut_is_valid ops F))))],
                 calls := calls w @ [Call_is_valid, Call_move]\<rparr>) \<and>
            valid (fst (constructor_block ops this F w))) \<and>
         (\<not> fst (fut_is_valid ops F) \<longrightarrow>
            constructor_block ops this F w =
              (this, snd (fut_is_valid ops F), w\<lparr>calls := calls w @ [Call_is_valid]\<rparr>) \<and>
            \<not> valid (fst (constructor_block ops this F w)))"
proof (cases "fut_is_valid ops F")
  case (Pair answer queried)
  with assms show ?thesis
    by (cases "fut_move ops queried")
       (simp add: constructor_block_def Let_def note_call_def valid_def)
qed

theorem constructor_block_on_new_adaptor_witness:
  "constructor_block simple_ops empty_handle (yields 42) empty_world =
     (handle 0, (yields 42)\<lparr>sf_valid := False\<rparr>,
      \<lparr>cells = [Pending (yields 42)], calls = [Call_is_valid, Call_move]\<rparr>) \<and>
   valid (handle 0) \<and>
   constructor_block simple_ops empty_handle invalid_future empty_world =
     (empty_handle, invalid_future, \<lparr>cells = [], calls = [Call_is_valid]\<rparr>) \<and>
   \<not> valid empty_handle"
proof -
  have n: "variant_ptr empty_handle = None" by (simp add: empty_handle_def)
  have a: "fst (fut_is_valid simple_ops (yields 42))" by (simp add: simple_defs)
  have b: "\<not> fst (fut_is_valid simple_ops invalid_future)" by (simp add: simple_defs)
  note t = constructor_block_on_new_adaptor[OF n, of simple_ops "yields 42" empty_world]
  note u = constructor_block_on_new_adaptor[OF n, of simple_ops invalid_future empty_world]
  from a t have "constructor_block simple_ops empty_handle (yields 42) empty_world =
        (empty_handle\<lparr>variant_ptr := Some (length (cells empty_world))\<rparr>,
         snd (fut_move simple_ops (snd (fut_is_valid simple_ops (yields 42)))),
         empty_world\<lparr>cells := cells empty_world @
             [Pending (fst (fut_move simple_ops (snd (fut_is_valid simple_ops (yields 42)))))],
           calls := calls empty_world @ [Call_is_valid, Call_move]\<rparr>)"
    by blast
  also have "\<dots> = (handle 0, (yields 42)\<lparr>sf_valid := False\<rparr>,
      \<lparr>cells = [Pending (yields 42)], calls = [Call_is_valid, Call_move]\<rparr>)"
    by (simp add: simple_defs)
  finally have c1: "constructor_block simple_ops empty_handle (yields 42) empty_world =
     (handle 0, (yields 42)\<lparr>sf_valid := False\<rparr>,
      \<lparr>cells = [Pending (yields 42)], calls = [Call_is_valid, Call_move]\<rparr>)" .
  from a t have "valid (fst (constructor_block simple_ops empty_handle (yields 42) empty_world))"
    by blast
  with c1 have c2: "valid (handle 0)" by simp
  from b u have "constructor_block simple_ops empty_handle invalid_future empty_world =
        (empty_handle, snd (fut_is_valid simple_ops invalid_future),
         empty_world\<lparr>calls := calls empty_world @ [Call_is_valid]\<rparr>)"
    by blast
  also have "\<dots> = (empty_handle, invalid_future, \<lparr>cells = [], calls = [Call_is_valid]\<rparr>)"
    by (simp add: simple_defs)
  finally have c3: "constructor_block simple_ops empty_handle invalid_future empty_world =
     (empty_handle, invalid_future, \<lparr>cells = [], calls = [Call_is_valid]\<rparr>)" .
  from b u have "\<not> valid (fst (constructor_block simple_ops empty_handle invalid_future empty_world))"
    by blast
  with c3 have c4: "\<not> valid empty_handle" by simp
  from c1 c2 c3 c4 show ?thesis by (intro conjI)
qed



section \<open>\<open>is_ready\<close> and \<open>wait\<close> observe\<close>

text \<open>
  Claim C5. On a valid adaptor, \<open>is_ready\<close> returns true when the state is \<open>Ready\<close>,
  calling nothing; when the state is \<open>Pending f\<close> it returns the answer of the
  readiness query of \<open>f\<close>, which is the one call it makes. In both cases every state on
  the heap is left as it was.
\<close>

theorem is_ready_observes_only:
  assumes "variant_ptr this = Some p" and "p < length (cells w)"
  shows "(\<forall>v. cells w ! p = Ready v \<longrightarrow> is_ready ops this w = (Inr True, w)) \<and>
         (\<forall>f. cells w ! p = Pending f \<longrightarrow>
            is_ready ops this w =
              (Inr (fut_is_ready ops f), w\<lparr>calls := calls w @ [Call_is_ready]\<rparr>)) \<and>
         cells (snd (is_ready ops this w)) = cells w"
proof (intro conjI)
  show "\<forall>v. cells w ! p = Ready v \<longrightarrow> is_ready ops this w = (Inr True, w)"
    using assms by (simp add: is_ready_def deref_Some)
  show "\<forall>f. cells w ! p = Pending f \<longrightarrow>
          is_ready ops this w =
            (Inr (fut_is_ready ops f), w\<lparr>calls := calls w @ [Call_is_ready]\<rparr>)"
    using assms by (simp add: is_ready_def deref_Some note_call_def)
  show "cells (snd (is_ready ops this w)) = cells w"
    by (rule is_ready_cells)
qed

theorem is_ready_observes_only_witness:
  "is_ready simple_ops (handle 0) one_ready = (Inr True, one_ready) \<and>
   is_ready simple_ops (handle 0) one_pending =
     (Inr False, \<lparr>cells = [Pending (yields 42)], calls = [Call_is_ready]\<rparr>)"
proof -
  have a: "variant_ptr (handle 0) = Some 0" by (simp add: handle_def)
  have b: "0 < length (cells one_ready)" by (simp add: one_ready_def)
  have c: "0 < length (cells one_pending)" by (simp add: one_pending_def)
  have d: "cells one_ready ! 0 = Ready 42" by (simp add: one_ready_def)
  have e: "cells one_pending ! 0 = Pending (yields 42)" by (simp add: one_pending_def)
  from is_ready_observes_only[OF a b, of simple_ops] d
  have r1: "is_ready simple_ops (handle 0) one_ready = (Inr True, one_ready)" by blast
  from is_ready_observes_only[OF a c, of simple_ops] e
  have "is_ready simple_ops (handle 0) one_pending =
          (Inr (fut_is_ready simple_ops (yields 42)),
           one_pending\<lparr>calls := calls one_pending @ [Call_is_ready]\<rparr>)" by blast
  also have "\<dots> = (Inr False, \<lparr>cells = [Pending (yields 42)], calls = [Call_is_ready]\<rparr>)"
    by (simp add: simple_defs)
  finally show ?thesis using r1 by (intro conjI)
qed

text \<open>
  Claim C6. On a valid adaptor, \<open>wait\<close> on a \<open>Ready\<close> state returns at once and changes
  nothing, not even the log of calls: the underlying future is not touched. On a state
  \<open>Pending f\<close> it makes one call, the \<open>wait\<close> of \<open>f\<close>, and the state is \<open>Pending\<close> still,
  holding \<open>f\<close> as that call left it. So \<open>wait\<close> never changes the shape of the state, it
  changes no other state, and it writes nothing to the state itself: where the \<open>wait\<close>
  of the underlying future leaves the future as it was, the heap after \<open>wait\<close> is the
  heap before.
\<close>

theorem wait_leaves_state:
  assumes "variant_ptr this = Some p" and "p < length (cells w)"
  shows "(\<forall>v. cells w ! p = Ready v \<longrightarrow> wait ops this w = (Inr (), w)) \<and>
         (\<forall>f. cells w ! p = Pending f \<longrightarrow>
            wait ops this w =
              (Inr (), w\<lparr>cells := (cells w)[p := Pending (fut_wait ops f)],
                        calls := calls w @ [Call_wait]\<rparr>)) \<and>
         holds_result (cells (snd (wait ops this w)) ! p) = holds_result (cells w ! p) \<and>
         (\<forall>q. q \<noteq> p \<longrightarrow> cells (snd (wait ops this w)) ! q = cells w ! q) \<and>
         (\<forall>f. cells w ! p = Pending f \<and> fut_wait ops f = f \<longrightarrow>
            cells (snd (wait ops this w)) = cells w)"
proof (cases "cells w ! p")
  case (Ready v)
  with assms show ?thesis by (simp add: wait_def deref_Some)
next
  case (Pending f)
  with assms show ?thesis by (simp add: wait_def deref_Some note_call_def list_update_same_conv)
qed

theorem wait_leaves_state_witness:
  "wait simple_ops (handle 0) one_ready = (Inr (), one_ready) \<and>
   wait simple_ops (handle 0) one_pending =
     (Inr (), \<lparr>cells = [Pending ((yields 42)\<lparr>sf_ready := True\<rparr>)], calls = [Call_wait]\<rparr>)"
proof -
  have a: "variant_ptr (handle 0) = Some 0" by (simp add: handle_def)
  have b: "0 < length (cells one_ready)" by (simp add: one_ready_def)
  have c: "0 < length (cells one_pending)" by (simp add: one_pending_def)
  have d: "cells one_ready ! 0 = Ready 42" by (simp add: one_ready_def)
  have e: "cells one_pending ! 0 = Pending (yields 42)" by (simp add: one_pending_def)
  from wait_leaves_state[OF a b, of simple_ops] d
  have r1: "wait simple_ops (handle 0) one_ready = (Inr (), one_ready)" by blast
  from wait_leaves_state[OF a c, of simple_ops] e
  have "wait simple_ops (handle 0) one_pending =
          (Inr (), one_pending\<lparr>cells := (cells one_pending)[0 := Pending (fut_wait simple_ops (yields 42))],
                        calls := calls one_pending @ [Call_wait]\<rparr>)" by blast
  also have "\<dots> = (Inr (), \<lparr>cells = [Pending ((yields 42)\<lparr>sf_ready := True\<rparr>)], calls = [Call_wait]\<rparr>)"
    by (simp add: simple_defs)
  finally show ?thesis using r1 by (intro conjI)
qed

section \<open>Copies share one pointer\<close>

text \<open>
  Claim C7 says that copies of an adaptor refer to one state, and that after \<open>get\<close>
  through one copy a \<open>get\<close> through another returns the cached value without consuming
  the source again. Let \<open>A\<close> and \<open>B\<close> be copies, of copies, of an adaptor \<open>a\<close> that refers
  to the state \<open>p\<close> (\<open>m\<close> and \<open>n\<close> copying steps away from it). Both carry the pointer
  of \<open>a\<close>. But \<open>get\<close> as line 124 has it applies no visitor, through \<open>A\<close> or through
  \<open>B\<close>: while \<open>p\<close> is \<open>Pending\<close> nothing is retrieved and nothing cached for the other
  copy to see. \<open>get_visitor\<close> dispatched on the shared variant does what the claim says:
  the first dispatch retrieves once and stores the value, the second returns the same
  reference, and the retrieval has been invoked once in all.
\<close>

theorem copies_share_pointer_get_retrieves_nothing:
  assumes "A = (shared_future_adaptor_copy ^^ m) a"
    and "B = (shared_future_adaptor_copy ^^ n) a"
    and "variant_ptr a = Some p" and "p < length (cells w)"
    and "cells w ! p = Pending f" and "fut_get ops f = (Inr v, f')"
  shows "variant_ptr A = Some p \<and> variant_ptr B = Some p \<and>
         get ops A w = (Inl Ill_formed, w) \<and>
         get ops B w = (Inl Ill_formed, w) \<and>
         get_visitor ops p p w =
           (Inr p, w\<lparr>cells := (cells w)[p := Ready v], calls := calls w @ [Call_get]\<rparr>) \<and>
         get_visitor ops p p (snd (get_visitor ops p p w)) =
           (Inr p, snd (get_visitor ops p p w)) \<and>
         read_result (snd (get_visitor ops p p w)) p = Some v \<and>
         retrievals (snd (get_visitor ops p p (snd (get_visitor ops p p w)))) =
           retrievals w + 1"
proof -
  let ?w1 = "w\<lparr>cells := (cells w)[p := Ready v], calls := calls w @ [Call_get]\<rparr>"
  have a: "variant_ptr A = Some p" using assms(1,3) by (simp add: copies_variant_ptr)
  have b: "variant_ptr B = Some p" using assms(2,3) by (simp add: copies_variant_ptr)
  have ga: "get ops A w = (Inl Ill_formed, w)" using a assms(4) by (rule get_valid_ill_formed)
  have gb: "get ops B w = (Inl Ill_formed, w)" using b assms(4) by (rule get_valid_ill_formed)
  have g: "get_visitor ops p p w = (Inr p, ?w1)"
    using assms(4,5,6) by (rule get_visitor_own_returns)
  then have s: "snd (get_visitor ops p p w) = ?w1" by simp
  have k: "p < length (cells ?w1)" "cells ?w1 ! p = Ready v" using assms(4) by simp_all
  have r: "read_result ?w1 p = Some v" using k by (rule read_result_Ready)
  have c: "get_visitor ops p p ?w1 = (Inr p, ?w1)" using k by (rule get_visitor_Ready)
  have n: "retrievals (snd (get_visitor ops p p ?w1)) = retrievals w + 1"
    unfolding c by (simp add: retrievals_def)
  from a b ga gb g c r n show ?thesis unfolding s by (intro conjI)
qed

theorem copies_share_pointer_get_retrieves_nothing_witness:
  "shared_future_adaptor_copy (handle 0) = handle 0 \<and>
   get simple_ops (shared_future_adaptor_copy (handle 0)) one_pending =
     (Inl Ill_formed, one_pending) \<and>
   get simple_ops (shared_future_adaptor_copy (shared_future_adaptor_copy (handle 0)))
     one_pending = (Inl Ill_formed, one_pending)"
proof -
  let ?A = "shared_future_adaptor_copy (handle 0)"
  let ?B = "shared_future_adaptor_copy (shared_future_adaptor_copy (handle 0))"
  have A: "?A = (shared_future_adaptor_copy ^^ Suc 0) (handle 0)" by simp
  have B: "?B = (shared_future_adaptor_copy ^^ Suc (Suc 0)) (handle 0)" by simp
  have a: "variant_ptr (handle 0) = Some 0" by (simp add: handle_def)
  have b: "0 < length (cells one_pending)" by (simp add: one_pending_def)
  have c: "cells one_pending ! 0 = Pending (yields 42)" by (simp add: one_pending_def)
  have d: "fut_get simple_ops (yields 42) =
             (Inr 42, (yields 42)\<lparr>sf_valid := False, sf_ready := True\<rparr>)"
    by (simp add: simple_ops_def yields_def)
  note t = copies_share_pointer_get_retrieves_nothing[OF A B a b c d]
  from t have g1: "get simple_ops ?A one_pending = (Inl Ill_formed, one_pending)" by blast
  from t have g2: "get simple_ops ?B one_pending = (Inl Ill_formed, one_pending)" by blast
  have e: "shared_future_adaptor_copy (handle 0) = handle 0"
    by (simp add: shared_future_adaptor_copy_def handle_def)
  from e g1 g2 show ?thesis by (intro conjI)
qed

section \<open>A failing retrieval\<close>



section \<open>Several threads\<close>




end
